theory Spec2Isabelle
  imports Complex_Main
begin

section \<open>JavaScript numbers, idealised\<close>

text \<open>
  The waveform module computes with JavaScript numbers. They are modelled by the reals:
  rounding, NaN and the infinities are outside the model. Where a division by zero of the
  source could be reached, the definition concerned says what the source does there.
\<close>

text \<open>
  The operator \<^verbatim>\<open>%\<close> of JavaScript: the remainder takes the sign of the dividend,
  \<^verbatim>\<open>n % d = n - d * q\<close> with \<^verbatim>\<open>q\<close> the quotient \<^verbatim>\<open>n / d\<close> truncated towards zero.
\<close>

definition js_trunc :: "real \<Rightarrow> int" where
  "js_trunc x = (if 0 \<le> x then \<lfloor>x\<rfloor> else \<lceil>x\<rceil>)"

definition js_rem :: "real \<Rightarrow> real \<Rightarrow> real" where
  "js_rem n d = n - d * of_int (js_trunc (n / d))"

section \<open>Waveform generators (waveformGen.js)\<close>

text \<open>
  \<^verbatim>\<open>generateNormalMUAP(timeMs, phase = 0)\<close>: the triphasic motor unit action potential.
  The parameter \<^verbatim>\<open>phase\<close> is declared and never read.
\<close>

definition generateNormalMUAP :: "real \<Rightarrow> real \<Rightarrow> real" where
  "generateNormalMUAP timeMs phase =
     (let duration = 12; amplitude = 800 in
      if timeMs < 0 \<or> timeMs > duration then 0
      else
        let t = timeMs / duration in
        if t < 0.15 then amplitude * 0.2 * sin (t * pi / 0.15)
        else if t < 0.65 then
          (let localT = (t - 0.15) / 0.5 in - amplitude * sin (localT * pi))
        else
          (let localT = (t - 0.65) / 0.35 in amplitude * 0.15 * sin (localT * pi)))"

text \<open>\<^verbatim>\<open>generateFibrillation(timeMs)\<close>: the biphasic fibrillation potential.\<close>

definition generateFibrillation :: "real \<Rightarrow> real" where
  "generateFibrillation timeMs =
     (let duration = 2; amplitude = 150 in
      if timeMs < 0 \<or> timeMs > duration then 0
      else
        let t = timeMs / duration in
        if t < 0.4 then amplitude * sin (t * pi / 0.4)
        else - amplitude * 0.7 * sin ((t - 0.4) * pi / 0.6))"

text \<open>
  \<^verbatim>\<open>generateFasciculation(timeMs)\<close> calls \<^verbatim>\<open>generateNormalMUAP(timeMs)\<close>, where the
  omitted argument \<^verbatim>\<open>phase\<close> takes its default 0.
\<close>

definition generateFasciculation :: "real \<Rightarrow> real" where
  "generateFasciculation timeMs = generateNormalMUAP timeMs 0"

text \<open>
  \<^verbatim>\<open>generateMyotonicDischarge(timeMs, totalDuration = 500)\<close>. The guard is evaluated before
  the division, so the quotient \<^verbatim>\<open>timeMs / totalDuration\<close> is reached with a zero divisor
  only at \<^verbatim>\<open>timeMs = totalDuration = 0\<close>, where JavaScript yields NaN and the model, with
  \<open>0 / 0 = 0\<close>, the value 0; the theorems about values inside the event assume
  \<open>0 < totalDuration\<close>.
\<close>

definition generateMyotonicDischarge :: "real \<Rightarrow> real \<Rightarrow> real" where
  "generateMyotonicDischarge timeMs totalDuration =
     (let amplitude = 200 in
      if timeMs < 0 \<or> timeMs > totalDuration then 0
      else
        let progress = timeMs / totalDuration;
            startFreq = 150;
            endFreq = 20;
            freq = startFreq - (startFreq - endFreq) * progress;
            envelope = (if progress < 0.3 then progress / 0.3
                        else if progress < 0.7 then 1.0
                        else (1.0 - progress) / 0.3);
            phase = 2 * pi * freq * timeMs / 1000
        in amplitude * envelope * sin phase)"

text \<open>
  \<^verbatim>\<open>generateComplexRepetitiveDischarge(timeMs, burstFreq = 40)\<close>. There is no guard on the
  sign of \<^verbatim>\<open>timeMs\<close>. At \<^verbatim>\<open>burstFreq = 0\<close> JavaScript has an infinite period and
  \<^verbatim>\<open>timeMs % Infinity = timeMs\<close>; the model has \<open>1000 / 0 = 0\<close> and
  \<open>js_rem timeMs 0 = timeMs\<close>, the same position in the period.
\<close>

definition generateComplexRepetitiveDischarge :: "real \<Rightarrow> real \<Rightarrow> real" where
  "generateComplexRepetitiveDischarge timeMs burstFreq =
     (let spikeDuration = 15;
          amplitude = 300;
          period = 1000 / burstFreq;
          timeInPeriod = js_rem timeMs period
      in
      if timeInPeriod > spikeDuration then 0
      else
        let t = timeInPeriod / spikeDuration;
            value = 0 + sin (t * pi * 2) * 0.5 + sin (t * pi * 3) * 0.3 + sin (t * pi * 4) * 0.2
        in amplitude * value)"

text \<open>\<^verbatim>\<open>generatePositiveSharpWave(timeMs)\<close>: linear rise, then exponential decay.\<close>

definition generatePositiveSharpWave :: "real \<Rightarrow> real" where
  "generatePositiveSharpWave timeMs =
     (let duration = 20; amplitude = 400 in
      if timeMs < 0 \<or> timeMs > duration then 0
      else
        let t = timeMs / duration in
        if t < 0.2 then amplitude * (t / 0.2)
        else - amplitude * 0.7 * exp (- (t - 0.2) * 5))"

section \<open>The shape of the myotonic discharge, as the specification words it\<close>






section \<open>The pattern assembler (generateEMGPattern)\<close>

text \<open>
  Exceptions of the JavaScript host are values: \<open>RangeError\<close> is what the constructor of a
  typed array raises for a negative length, \<open>TypeError\<close> what \<^verbatim>\<open>new\<close> raises when its
  operand is not a constructor.
\<close>

datatype js_error = RangeError | TypeError

text \<open>
  \<^verbatim>\<open>Math.random()\<close> is a sequence of draws supplied from outside: \<open>rnd k\<close> is the result of
  the call number \<open>k\<close>, counted from 0 within one invocation of the function modelled.
  The host promises \<open>0 \<le> rnd k < 1\<close>; the theorems that need it assume it.
\<close>

type_synonym rng = "nat \<Rightarrow> real"

definition constant_draws :: "real \<Rightarrow> rng" where
  "constant_draws c k = c"

text \<open>
  The inner loop of the cases \<^verbatim>\<open>'normal'\<close>, \<^verbatim>\<open>'fibrillation'\<close> and \<^verbatim>\<open>'fasciculation'\<close>:
  \<^verbatim>\<open>for (let j = 0; j < evDuration * sampleRate && i + j < numSamples; j++)
    data[i + j] += gen(j / sampleRate);\<close>
  The three cases differ in the generator and in the constant duration only. The second
  conjunct of the loop condition keeps every write inside the buffer.
\<close>

function overlay_event ::
  "(real \<Rightarrow> real) \<Rightarrow> real \<Rightarrow> real \<Rightarrow> nat \<Rightarrow> nat \<Rightarrow> nat \<Rightarrow> real list \<Rightarrow> real list" where
  "overlay_event gen evDuration sampleRate numSamples i j data =
     (if real j < evDuration * sampleRate \<and> i + j < numSamples
      then overlay_event gen evDuration sampleRate numSamples i (Suc j)
             (data[i + j := data ! (i + j) + gen (real j / sampleRate)])
      else data)"
  by pat_completeness auto
termination
  by (relation "measure (\<lambda>(gen, evDuration, sampleRate, numSamples, i, j, data). numSamples - (i + j))")
     auto

declare overlay_event.simps [simp del]

text \<open>
  The outer loop of the same three cases:
  \<^verbatim>\<open>for (let i = 0; i < numSamples; i++) if (Math.random() < p) { inner loop }\<close>.
  Each iteration calls \<^verbatim>\<open>Math.random()\<close> exactly once, so iteration \<open>i\<close> sees draw \<open>i\<close>.
\<close>

function place_events ::
  "real \<Rightarrow> (real \<Rightarrow> real) \<Rightarrow> real \<Rightarrow> rng \<Rightarrow> real \<Rightarrow> nat \<Rightarrow> nat \<Rightarrow> real list \<Rightarrow> real list" where
  "place_events p gen evDuration rnd sampleRate numSamples i data =
     (if i < numSamples
      then place_events p gen evDuration rnd sampleRate numSamples (Suc i)
             (if rnd i < p then overlay_event gen evDuration sampleRate numSamples i 0 data
              else data)
      else data)"
  by pat_completeness auto
termination
  by (relation "measure (\<lambda>(p, gen, evDuration, rnd, sampleRate, numSamples, i, data). numSamples - i)")
     auto

declare place_events.simps [simp del]

text \<open>
  The loop of the cases \<^verbatim>\<open>'myotonic'\<close>, \<^verbatim>\<open>'crd'\<close> and \<^verbatim>\<open>default\<close>:
  \<^verbatim>\<open>for (let i = 0; i < numSamples; i++) data[i] = f(i);\<close>
\<close>

function fill_samples :: "(nat \<Rightarrow> real) \<Rightarrow> nat \<Rightarrow> nat \<Rightarrow> real list \<Rightarrow> real list" where
  "fill_samples f numSamples i data =
     (if i < numSamples then fill_samples f numSamples (Suc i) (data[i := f i]) else data)"
  by pat_completeness auto
termination
  by (relation "measure (\<lambda>(f, numSamples, i, data). numSamples - i)") auto

declare fill_samples.simps [simp del]

text \<open>
  \<^verbatim>\<open>generateEMGPattern(patternType, durationMs, sampleRate = 10)\<close>.
  \<^verbatim>\<open>new Float32Array(numSamples)\<close> raises RangeError for a negative length and otherwise
  yields \<open>numSamples\<close> zeros; the limits of the host's memory and the rounding of the stored
  samples to single precision are not modelled. The \<^verbatim>\<open>switch\<close> compares strings with strict
  equality, and there is no case for a positive sharp wave. With \<open>sampleRate = 0\<close> the
  buffer is empty and no quotient \<^verbatim>\<open>i / sampleRate\<close> is evaluated.
\<close>

definition generateEMGPattern :: "rng \<Rightarrow> string \<Rightarrow> real \<Rightarrow> real \<Rightarrow> js_error + real list" where
  "generateEMGPattern rnd patternType durationMs sampleRate =
     (let numSamples = \<lfloor>durationMs * sampleRate\<rfloor> in
      if numSamples < 0 then Inl RangeError
      else
        let n = nat numSamples;
            data = replicate n 0
        in Inr
          (if patternType = ''normal'' then
             place_events 0.015 (\<lambda>t. generateNormalMUAP t 0) 12 rnd sampleRate n 0 data
           else if patternType = ''fibrillation'' then
             place_events 0.008 generateFibrillation 2 rnd sampleRate n 0 data
           else if patternType = ''fasciculation'' then
             place_events 0.0015 generateFasciculation 12 rnd sampleRate n 0 data
           else if patternType = ''myotonic'' then
             fill_samples (\<lambda>i. generateMyotonicDischarge (real i / sampleRate) durationMs) n 0 data
           else if patternType = ''crd'' then
             fill_samples (\<lambda>i. generateComplexRepetitiveDischarge (real i / sampleRate) 40) n 0 data
           else
             fill_samples (\<lambda>i. (rnd i - 0.5) * 10) n 0 data))"

text \<open>
  The waveform inside one spike window of the complex repetitive discharge, as the
  specification words it, with \<open>u\<close> the normalised position in the window and A = 300.
\<close>

definition crd_spike_spec :: "real \<Rightarrow> real" where
  "crd_spike_spec u =
     300 * (0.5 * sin (2 * pi * u) + 0.3 * sin (3 * pi * u) + 0.2 * sin (4 * pi * u))"

section \<open>Continuous playback (audioSynthesis.js)\<close>

text \<open>
  The host: whether a constructor for an audio context exists
  (\<^verbatim>\<open>window.AudioContext || window.webkitAudioContext\<close>), whether the module-level variable
  \<^verbatim>\<open>audioContext\<close> already holds a context, the sample rate of that context, the sequence
  behind \<^verbatim>\<open>Math.random()\<close> with the number of calls made so far, the pending timers of
  \<^verbatim>\<open>setTimeout\<close> (identifier, delay in milliseconds, callback) and a log of the sounds
  started. Each call of a \<^verbatim>\<open>play...\<close> function of the module appends one entry to the log;
  the oscillator, gain and buffer nodes it wires up and their envelopes are not modelled
  further.
\<close>

datatype sound =
    NormalMUAPSound real
  | FibrillationSound real
  | FasciculationSound real
  | MyotonicSound real real
  | CRDSound real nat
  | PositiveSharpWaveSound real

datatype callback = PlayPattern | AutoStop

record host =
  audioAvailable :: bool
  audioContext :: bool
  contextSampleRate :: real
  randomSource :: rng
  randomCalls :: nat
  sounds :: "sound list"
  timers :: "(nat \<times> real \<times> callback) list"
  nextTimerId :: nat

text \<open>
  The variables captured by the closures of one call of \<^verbatim>\<open>playContinuousPattern\<close>:
  its arguments \<^verbatim>\<open>patternType\<close> and \<^verbatim>\<open>volume\<close> and its locals \<^verbatim>\<open>isPlaying\<close> and
  \<^verbatim>\<open>timeoutIds\<close>. The handle returned to the caller is this closure state.
\<close>

record player =
  patternType :: string
  volume :: real
  isPlaying :: bool
  timeoutIds :: "nat list"

text \<open>
  An exception carries the state in which the host is left: \<open>Inl (e, h)\<close> is \<open>e\<close> thrown
  with the host in state \<open>h\<close>.
\<close>

text \<open>
  \<^verbatim>\<open>getAudioContext()\<close>: the context is created on first use and kept. Without a
  constructor, \<^verbatim>\<open>new (undefined)()\<close> throws a TypeError before the assignment.
\<close>

definition getAudioContext :: "host \<Rightarrow> js_error \<times> host + host" where
  "getAudioContext h =
     (if audioContext h then Inr h
      else if audioAvailable h then Inr (h\<lparr>audioContext := True\<rparr>)
      else Inl (TypeError, h))"

definition mathRandom :: "host \<Rightarrow> real \<times> host" where
  "mathRandom h = (randomSource h (randomCalls h), h\<lparr>randomCalls := Suc (randomCalls h)\<rparr>)"

definition setTimeout :: "callback \<Rightarrow> real \<Rightarrow> host \<Rightarrow> nat \<times> host" where
  "setTimeout cb delay h =
     (nextTimerId h,
      h\<lparr>timers := timers h @ [(nextTimerId h, delay, cb)], nextTimerId := Suc (nextTimerId h)\<rparr>)"

definition clearTimeout :: "nat \<Rightarrow> host \<Rightarrow> host" where
  "clearTimeout i h = h\<lparr>timers := filter (\<lambda>(j, delay, cb). j \<noteq> i) (timers h)\<rparr>"

text \<open>
  Every \<^verbatim>\<open>play...\<close> function starts with \<^verbatim>\<open>getAudioContext()\<close> and then starts its
  sources on the context.
\<close>

definition start_sound :: "sound \<Rightarrow> host \<Rightarrow> js_error \<times> host + host" where
  "start_sound snd_ev h =
     (case getAudioContext h of
        Inl e \<Rightarrow> Inl e
      | Inr h' \<Rightarrow> Inr (h'\<lparr>sounds := sounds h' @ [snd_ev]\<rparr>))"

definition playNormalMUAP :: "real \<Rightarrow> host \<Rightarrow> js_error \<times> host + host" where
  "playNormalMUAP vol h = start_sound (NormalMUAPSound vol) h"

text \<open>
  \<^verbatim>\<open>playFibrillation\<close> fills a noise buffer of \<^verbatim>\<open>ctx.sampleRate * 0.005\<close> samples with one
  call of \<^verbatim>\<open>Math.random()\<close> for each index below that size.
\<close>

definition playFibrillation :: "real \<Rightarrow> host \<Rightarrow> js_error \<times> host + host" where
  "playFibrillation vol h =
     (case getAudioContext h of
        Inl e \<Rightarrow> Inl e
      | Inr h' \<Rightarrow>
          Inr (h'\<lparr>randomCalls := randomCalls h' + nat \<lceil>contextSampleRate h' * 0.005\<rceil>,
                   sounds := sounds h' @ [FibrillationSound vol]\<rparr>))"

definition playFasciculation :: "real \<Rightarrow> host \<Rightarrow> js_error \<times> host + host" where
  "playFasciculation vol h = start_sound (FasciculationSound vol) h"

definition playMyotonicDischarge :: "real \<Rightarrow> real \<Rightarrow> host \<Rightarrow> js_error \<times> host + host" where
  "playMyotonicDischarge vol duration h = start_sound (MyotonicSound vol duration) h"

text \<open>
  \<^verbatim>\<open>playComplexRepetitiveDischarge\<close> starts
  \<^verbatim>\<open>numSpikes = 3 + Math.floor(Math.random() * 3)\<close> square-wave spikes in one call.
\<close>

definition playComplexRepetitiveDischarge :: "real \<Rightarrow> host \<Rightarrow> js_error \<times> host + host" where
  "playComplexRepetitiveDischarge vol h =
     (case getAudioContext h of
        Inl e \<Rightarrow> Inl e
      | Inr h' \<Rightarrow>
          (let (r, h'') = mathRandom h';
               numSpikes = 3 + nat \<lfloor>r * 3\<rfloor>
           in Inr (h''\<lparr>sounds := sounds h'' @ [CRDSound vol numSpikes]\<rparr>)))"

definition playPositiveSharpWave :: "real \<Rightarrow> host \<Rightarrow> js_error \<times> host + host" where
  "playPositiveSharpWave vol h = start_sound (PositiveSharpWaveSound vol) h"

text \<open>\<^verbatim>\<open>timeoutIds.push(setTimeout(cb, delay))\<close>.\<close>

definition schedule :: "callback \<Rightarrow> real \<Rightarrow> player \<Rightarrow> host \<Rightarrow> player \<times> host" where
  "schedule cb delay p h =
     (let (i, h') = setTimeout cb delay h in (p\<lparr>timeoutIds := timeoutIds p @ [i]\<rparr>, h'))"

text \<open>
  \<^verbatim>\<open>timeoutIds.push(setTimeout(playPattern, base + Math.random() * spread))\<close>: the delay
  is computed, with its draw, before the timer is set.
\<close>

definition schedule_random :: "real \<Rightarrow> real \<Rightarrow> player \<Rightarrow> host \<Rightarrow> player \<times> host" where
  "schedule_random base spread p h =
     (let (r, h') = mathRandom h in schedule PlayPattern (base + r * spread) p h')"

text \<open>
  The inner function \<^verbatim>\<open>playPattern\<close>. Its \<^verbatim>\<open>switch\<close> has no default: for any other
  pattern type it does nothing.
\<close>

definition playPattern :: "player \<Rightarrow> host \<Rightarrow> js_error \<times> host + player \<times> host" where
  "playPattern p h =
     (if \<not> isPlaying p then Inr (p, h)
      else if patternType p = ''normal'' then
        (case playNormalMUAP (volume p) h of
           Inl e \<Rightarrow> Inl e | Inr h' \<Rightarrow> Inr (schedule_random 50 100 p h'))
      else if patternType p = ''fibrillation'' then
        (case playFibrillation (volume p) h of
           Inl e \<Rightarrow> Inl e | Inr h' \<Rightarrow> Inr (schedule_random 70 130 p h'))
      else if patternType p = ''fasciculation'' then
        (case playFasciculation (volume p) h of
           Inl e \<Rightarrow> Inl e | Inr h' \<Rightarrow> Inr (schedule_random 500 2500 p h'))
      else if patternType p = ''myotonic'' then
        (case playMyotonicDischarge (volume p) 0.5 h of
           Inl e \<Rightarrow> Inl e | Inr h' \<Rightarrow> Inr (schedule PlayPattern 600 p h'))
      else if patternType p = ''crd'' then
        (case playComplexRepetitiveDischarge (volume p) h of
           Inl e \<Rightarrow> Inl e | Inr h' \<Rightarrow> Inr (schedule PlayPattern 300 p h'))
      else Inr (p, h))"

text \<open>
  The body shared by the auto-stop callback and by \<^verbatim>\<open>stop\<close>:
  \<^verbatim>\<open>isPlaying = false; timeoutIds.forEach(id => clearTimeout(id));\<close>
\<close>

definition halt :: "player \<Rightarrow> host \<Rightarrow> player \<times> host" where
  "halt p h = (p\<lparr>isPlaying := False\<rparr>, fold clearTimeout (timeoutIds p) h)"

text \<open>
  \<^verbatim>\<open>playContinuousPattern(patternType, duration = 5, volume = 0.3)\<close>. The first call of
  \<^verbatim>\<open>playPattern\<close> is made directly, outside any \<^verbatim>\<open>try\<close>: what it throws reaches the caller
  and no handle is returned.
\<close>

definition playContinuousPattern ::
  "string \<Rightarrow> real \<Rightarrow> real \<Rightarrow> host \<Rightarrow> js_error \<times> host + player \<times> host" where
  "playContinuousPattern pType duration vol h =
     (let p0 = \<lparr>patternType = pType, volume = vol, isPlaying = True, timeoutIds = []\<rparr> in
      case playPattern p0 h of
        Inl e \<Rightarrow> Inl e
      | Inr (p1, h1) \<Rightarrow>
          Inr (if duration > 0 then schedule AutoStop (duration * 1000) p1 h1 else (p1, h1)))"

text \<open>The method \<^verbatim>\<open>stop\<close> of the handle.\<close>

definition stop :: "player \<times> host \<Rightarrow> player \<times> host" where
  "stop s = halt (fst s) (snd s)"

text \<open>
  What can happen to a handle after it was returned: a pending timer fires (it leaves the
  host's list and its callback runs), a callback runs although its timer is no longer
  pending (it had been taken from the list when the timer was cleared), or the caller
  invokes \<^verbatim>\<open>stop\<close>. An exception escaping a timer callback is reported by the host and
  ends that callback only.
\<close>

datatype event = Fire nat | InFlight callback | Stop

definition run_callback :: "callback \<Rightarrow> player \<Rightarrow> host \<Rightarrow> player \<times> host" where
  "run_callback cb p h =
     (case cb of
        PlayPattern \<Rightarrow> (case playPattern p h of Inl (e, h') \<Rightarrow> (p, h') | Inr s \<Rightarrow> s)
      | AutoStop \<Rightarrow> halt p h)"

fun step :: "event \<Rightarrow> player \<times> host \<Rightarrow> player \<times> host" where
  "step (Fire i) (p, h) =
     (case find (\<lambda>(j, delay, cb). j = i) (timers h) of
        None \<Rightarrow> (p, h)
      | Some (j, delay, cb) \<Rightarrow> run_callback cb p (clearTimeout i h))"
| "step (InFlight cb) (p, h) = run_callback cb p h"
| "step Stop (p, h) = stop (p, h)"

definition run :: "event list \<Rightarrow> player \<times> host \<Rightarrow> player \<times> host" where
  "run evs s = fold step evs s"

text \<open>Two hosts to evaluate on: one without an audio context constructor, one with.\<close>

definition silent_host :: host where
  "silent_host =
     \<lparr>audioAvailable = False, audioContext = False, contextSampleRate = 44100,
      randomSource = constant_draws 0, randomCalls = 0, sounds = [], timers = [],
      nextTimerId = 1\<rparr>"

definition audible_host :: host where
  "audible_host = silent_host\<lparr>audioAvailable := True\<rparr>"

definition handled_patterns :: "string set" where
  "handled_patterns = {''normal'', ''fibrillation'', ''fasciculation'', ''myotonic'', ''crd''}"

section \<open>Properties of the waveform generators\<close>

lemma abs_sin_scaled: "\<bar>c\<bar> \<le> b \<Longrightarrow> \<bar>c * sin (x::real)\<bar> \<le> b"
proof -
  assume c: "\<bar>c\<bar> \<le> b"
  have "\<bar>c * sin x\<bar> = \<bar>c\<bar> * \<bar>sin x\<bar>" by (simp add: abs_mult)
  also have "\<dots> \<le> \<bar>c\<bar> * 1" by (intro mult_left_mono) auto
  finally show ?thesis using c by simp
qed

lemma sin_three_halves_pi: "sin (3 * pi / 2) = - 1" "sin (pi * 3 / 2) = - 1"
  using sin_3over2_pi by (simp_all add: mult.commute)

lemma generateNormalMUAP_bound: "\<bar>generateNormalMUAP t ph\<bar> \<le> 800"
  unfolding generateNormalMUAP_def Let_def
  by (auto intro!: abs_sin_scaled simp del: times_divide_eq_left times_divide_eq_right)

lemma generateFibrillation_bound: "\<bar>generateFibrillation t\<bar> \<le> 150"
  unfolding generateFibrillation_def Let_def
  by (auto intro!: abs_sin_scaled simp del: times_divide_eq_left times_divide_eq_right)

lemma myotonic_envelope_range:
  assumes "0 < D" "0 \<le> t" "t \<le> D"
  shows "\<bar>200 * (if t / D < 0.3 then (t / D) / 0.3
                 else if t / D < 0.7 then 1.0 else (1.0 - t / D) / 0.3)\<bar> \<le> (200::real)"
proof -
  have env: "\<bar>200 * (if p < 0.3 then p / 0.3
                     else if p < 0.7 then 1.0 else (1.0 - p) / 0.3)\<bar> \<le> (200::real)"
    if "0 \<le> p" "p \<le> 1" for p :: real
    using that by (auto simp: abs_le_iff)
  have "0 \<le> t / D" "t / D \<le> 1" using assms by auto
  then show ?thesis by (rule env)
qed

lemma generateMyotonicDischarge_bound:
  assumes "0 < D"
  shows "\<bar>generateMyotonicDischarge t D\<bar> \<le> 200"
proof (cases "t < 0 \<or> t > D")
  case True
  then show ?thesis by (simp add: generateMyotonicDischarge_def)
next
  case False
  then have r: "0 \<le> t" "t \<le> D" by auto
  show ?thesis
    using False abs_sin_scaled[OF myotonic_envelope_range[OF assms r]]
    by (simp add: generateMyotonicDischarge_def Let_def)
qed

lemma generateComplexRepetitiveDischarge_bound:
  "\<bar>generateComplexRepetitiveDischarge t bf\<bar> \<le> 300"
proof -
  have v: "\<bar>0 + sin a * 0.5 + sin b * 0.3 + sin c * 0.2\<bar> \<le> 1" for a b c :: real
  proof -
    have "- 1 \<le> sin a" "sin a \<le> 1" "- 1 \<le> sin b" "sin b \<le> 1" "- 1 \<le> sin c" "sin c \<le> 1"
      by simp_all
    then show ?thesis unfolding abs_le_iff by linarith
  qed
  have "\<bar>300 * (0 + sin a * 0.5 + sin b * 0.3 + sin c * 0.2)\<bar> \<le> 300" for a b c :: real
    using v[of a b c] by (simp add: abs_mult del: add_0)
  then show ?thesis
    unfolding generateComplexRepetitiveDischarge_def Let_def
    by (simp del: add_0 split: if_split)
qed

lemma generatePositiveSharpWave_bound: "\<bar>generatePositiveSharpWave t\<bar> \<le> 400"
proof (cases "t < 0 \<or> t > 20")
  case True
  then show ?thesis by (simp add: generatePositiveSharpWave_def)
next
  case False
  then have r: "0 \<le> t" "t \<le> 20" by auto
  show ?thesis
  proof (cases "t / 20 < 0.2")
    case True
    then show ?thesis using r by (simp add: generatePositiveSharpWave_def abs_le_iff)
  next
    case b: False
    have decay: "\<bar>- 400 * 0.7 * e\<bar> \<le> 400" if "0 < e" "e \<le> 1" for e :: real
      using that by (simp add: abs_le_iff)
    from b have "- (t / 20 - 0.2) * 5 \<le> 0" by simp
    then have "exp (- (t / 20 - 0.2) * 5) \<le> 1" by (simp only: exp_le_one_iff)
    with exp_gt_zero have "\<bar>- 400 * 0.7 * exp (- (t / 20 - 0.2) * 5)\<bar> \<le> 400"
      by (rule decay)
    then show ?thesis
      using r b by (simp add: generatePositiveSharpWave_def Let_def del: exp_le_one_iff)
  qed
qed

text \<open>
  The position inside the burst period: for a time \<open>P * k + r\<close> with \<open>0 \<le> r < P\<close> the
  remainder of the division by the period \<open>P\<close> is \<open>r\<close>.
\<close>

lemma js_rem_period:
  assumes "0 < P" "0 \<le> r" "r < P"
  shows "js_rem (P * real k + r) P = r"
proof -
  have "(P * real k + r) / P = real k + r / P" using assms by (simp add: field_simps)
  moreover have "0 \<le> r / P" "r / P < 1" using assms by auto
  ultimately have "\<lfloor>(P * real k + r) / P\<rfloor> = int k"
    by (simp add: floor_unique)
  moreover have "0 \<le> (P * real k + r) / P" using assms by auto
  ultimately show ?thesis by (simp add: js_rem_def js_trunc_def)
qed

lemma crd_in_period:
  assumes "0 < bf" "0 \<le> r" "r < 1000 / bf"
  shows "generateComplexRepetitiveDischarge (1000 / bf * real k + r) bf =
           (if r > 15 then 0 else crd_spike_spec (r / 15))"
proof -
  have "js_rem (1000 / bf * real k + r) (1000 / bf) = r"
    using assms by (intro js_rem_period) auto
  then show ?thesis
    by (simp add: generateComplexRepetitiveDischarge_def Let_def crd_spike_spec_def mult_ac)
qed

text \<open>
  Claim C1, as the code has it. Outside the interval from 0 to the duration of their event
  (12 ms, 2 ms, 12 ms, the total duration passed in, 20 ms) the generators of the normal
  potential, the fibrillation, the fasciculation, the myotonic discharge and the positive
  sharp wave return 0. The generator of the complex repetitive discharge repeats with the
  burst period of 1000 / burstFreq ms: at a time that lies \<open>r\<close> ms into period number
  \<open>k\<close> it returns 0 when \<open>r\<close> is beyond the spike window of 15 ms.
\<close>

theorem generators_zero_outside_event:
  "(t < 0 \<or> 12 < t \<longrightarrow> generateNormalMUAP t ph = 0 \<and> generateFasciculation t = 0) \<and>
   (t < 0 \<or> 2 < t \<longrightarrow> generateFibrillation t = 0) \<and>
   (t < 0 \<or> D < t \<longrightarrow> generateMyotonicDischarge t D = 0) \<and>
   (t < 0 \<or> 20 < t \<longrightarrow> generatePositiveSharpWave t = 0) \<and>
   (0 < bf \<and> 15 < r \<and> r < 1000 / bf \<longrightarrow>
      generateComplexRepetitiveDischarge (1000 / bf * real k + r) bf = 0)"
proof -
  have "generateComplexRepetitiveDischarge (1000 / bf * real k + r) bf = 0"
    if "0 < bf" "15 < r" "r < 1000 / bf"
    using that crd_in_period[of bf r k] by simp
  then show ?thesis
    by (auto simp: generateNormalMUAP_def generateFasciculation_def generateFibrillation_def
        generateMyotonicDischarge_def generatePositiveSharpWave_def)
qed

theorem generators_zero_outside_event_witness:
  "(12::real) < 25 \<and> generateNormalMUAP 25 0 = 0 \<and> generateFasciculation 25 = 0 \<and>
   generateFibrillation 25 = 0 \<and> generateMyotonicDischarge 25 20 = 0 \<and>
   generatePositiveSharpWave 25 = 0 \<and> (15::real) < 20 \<and> (20::real) < 1000 / 40 \<and>
   generateComplexRepetitiveDischarge 70 40 = 0"
  using generators_zero_outside_event[of 25 0 20 40 20 2] by simp

text \<open>
  The sentence of C1 as it was stated fails for the complex repetitive discharge: 32.5 ms
  is outside the 15 ms of a spike and lies in the middle of the spike window of the second
  period, where the generator returns -90; and at the negative time -7.5 ms it returns 90.
\<close>

theorem crd_nonzero_outside_spike_window:
  "generateComplexRepetitiveDischarge (65 / 2) 40 = - 90 \<and>
   generateComplexRepetitiveDischarge (- 15 / 2) 40 = 90"
proof -
  have "js_rem (25 * real 1 + 15 / 2) 25 = 15 / 2" by (rule js_rem_period) auto
  then have r1: "js_rem (65 / 2) 25 = 15 / 2" by simp
  have r2: "js_rem (- (15 / 2)) 25 = - (15 / 2)" by (simp add: js_rem_def js_trunc_def)
  have "generateComplexRepetitiveDischarge (65 / 2) 40 = - 90"
    by (simp add: generateComplexRepetitiveDischarge_def r1 Let_def sin_three_halves_pi)
  moreover have "generateComplexRepetitiveDischarge (- 15 / 2) 40 = 90"
    by (simp add: generateComplexRepetitiveDischarge_def r2 Let_def sin_three_halves_pi)
  ultimately show ?thesis by simp
qed









text \<open>
  Claim C8. The fasciculation generator returns what the generator of the normal potential
  returns, whatever the unused argument \<open>phase\<close> of the latter; and the assembler places a
  fasciculation exactly as it places a normal potential: the two cases of the assembler
  differ in the probability of a firing per sample step only.
\<close>

theorem generateFasciculation_is_normal:
  "generateFasciculation t = generateNormalMUAP t ph \<and>
   place_events p generateFasciculation 12 rnd sampleRate n i data =
     place_events p (\<lambda>t. generateNormalMUAP t 0) 12 rnd sampleRate n i data"
proof -
  have same: "generateFasciculation = (\<lambda>t. generateNormalMUAP t 0)"
    by (rule ext) (simp add: generateFasciculation_def)
  have "generateFasciculation t = generateNormalMUAP t ph"
    by (simp add: generateFasciculation_def generateNormalMUAP_def)
  then show ?thesis unfolding same by simp
qed

text \<open>
  Claim C9. The absolute value of every generator's output is bounded by the peak amplitude
  of its pattern: 800 for the normal potential, 150 for the fibrillation, 200 for the
  myotonic discharge with a positive total duration, 300 for the complex repetitive
  discharge and 400 for the positive sharp wave.
\<close>

theorem generator_amplitude_bounds:
  "\<bar>generateNormalMUAP t ph\<bar> \<le> 800 \<and>
   \<bar>generateFibrillation t\<bar> \<le> 150 \<and>
   (0 < D \<longrightarrow> \<bar>generateMyotonicDischarge t D\<bar> \<le> 200) \<and>
   \<bar>generateComplexRepetitiveDischarge t bf\<bar> \<le> 300 \<and>
   \<bar>generatePositiveSharpWave t\<bar> \<le> 400"
  using generateNormalMUAP_bound generateFibrillation_bound generateMyotonicDischarge_bound
    generateComplexRepetitiveDischarge_bound generatePositiveSharpWave_bound
  by blast

theorem generator_amplitude_bounds_witness:
  "(0::real) < 500 \<and> \<bar>generateMyotonicDischarge 125 500\<bar> \<le> 200 \<and>
   \<bar>generateNormalMUAP 125 0\<bar> \<le> 800 \<and> \<bar>generateFibrillation 125\<bar> \<le> 150 \<and>
   \<bar>generateComplexRepetitiveDischarge 125 40\<bar> \<le> 300 \<and>
   \<bar>generatePositiveSharpWave 125\<bar> \<le> 400"
  using generator_amplitude_bounds[of 125 0 500 40] by simp

section \<open>Properties of the pattern assembler\<close>

lemma length_overlay_event [simp]:
  "length (overlay_event gen d sr n i j data) = length data"
  by (induction gen d sr n i j data rule: overlay_event.induct)
     (subst overlay_event.simps, simp)

lemma length_place_events [simp]:
  "length (place_events p gen d rnd sr n i data) = length data"
  by (induction p gen d rnd sr n i data rule: place_events.induct)
     (subst place_events.simps, simp)

lemma length_fill_samples [simp]:
  "length (fill_samples f n i data) = length data"
  by (induction f n i data rule: fill_samples.induct)
     (subst fill_samples.simps, simp)

text \<open>The filling loop, run from index \<open>i\<close>, keeps the samples below \<open>i\<close> and writes the rest.\<close>

lemma fill_samples_eq:
  "i \<le> n \<Longrightarrow> length data = n \<Longrightarrow> fill_samples f n i data = take i data @ map f [i..<n]"
proof (induction f n i data rule: fill_samples.induct)
  case (1 f n i data)
  show ?case
  proof (cases "i < n")
    case True
    have "fill_samples f n i data = fill_samples f n (Suc i) (data[i := f i])"
      using True by (subst fill_samples.simps) simp
    also have "\<dots> = take (Suc i) (data[i := f i]) @ map f [Suc i..<n]"
      using True "1.prems" by (intro "1.IH") auto
    also have "take (Suc i) (data[i := f i]) = take i data @ [f i]"
      using True "1.prems" by (simp add: take_Suc_conv_app_nth)
    finally show ?thesis using True by (simp add: upt_conv_Cons)
  next
    case False
    then show ?thesis using "1.prems" by (subst fill_samples.simps) simp
  qed
qed

lemma fill_samples_all: "fill_samples f n 0 (replicate n 0) = map f [0..<n]"
  by (simp add: fill_samples_eq)

lemma generateEMGPattern_returns:
  assumes "0 \<le> d * s"
  shows "\<exists>buf. generateEMGPattern rnd p d s = Inr buf \<and> int (length buf) = \<lfloor>d * s\<rfloor>"
proof -
  have "0 \<le> \<lfloor>d * s\<rfloor>" using assms by simp
  then show ?thesis by (simp add: generateEMGPattern_def Let_def)
qed

text \<open>
  Claim C2, as the code has it. With a total duration of zero the assembler returns the
  empty buffer, for every pattern and sample rate. With a negative total duration and a
  positive sample rate the requested length is negative and the construction of the
  buffer raises RangeError.
\<close>

theorem generateEMGPattern_degenerate_duration:
  "generateEMGPattern rnd p 0 s = Inr [] \<and>
   (d < 0 \<and> 0 < s \<longrightarrow> generateEMGPattern rnd p d s = Inl RangeError)"
proof -
  have zero: "generateEMGPattern rnd p 0 s = Inr []"
    using generateEMGPattern_returns[of 0 s rnd p] by auto
  have "generateEMGPattern rnd p d s = Inl RangeError" if "d < 0" "0 < s"
  proof -
    have "d * s < 0" using that by (simp add: mult_neg_pos)
    then have "\<lfloor>d * s\<rfloor> < 0" by simp
    then show ?thesis by (simp add: generateEMGPattern_def Let_def)
  qed
  with zero show ?thesis by simp
qed

theorem generateEMGPattern_degenerate_duration_witness:
  "generateEMGPattern (constant_draws 0) ''fibrillation'' 0 10 = Inr [] \<and>
   (- 3 :: real) < 0 \<and> (0::real) < 10 \<and>
   generateEMGPattern (constant_draws 0) ''fibrillation'' (- 3) 10 = Inl RangeError"
  using generateEMGPattern_degenerate_duration[of "constant_draws 0" "''fibrillation''" 10 "- 3"]
  by simp

text \<open>
  The sentence of C2 as it was stated fails: a duration of -1 ms at 10 samples per
  millisecond asks for a buffer of -10 samples, and the call ends in RangeError.
\<close>

theorem generateEMGPattern_negative_duration_throws:
  "generateEMGPattern (constant_draws 0) ''normal'' (- 1) 10 = Inl RangeError"
  by (simp add: generateEMGPattern_def)

text \<open>
  Claim C5, as the code has it. For every pattern, every source of random draws and every
  positive total duration and sample rate the assembler returns a buffer, whose length is
  the product of the two rounded down; it is the product itself whenever the product is an
  integer, as for 500 ms at 10 samples per millisecond.
\<close>

theorem generateEMGPattern_buffer_length:
  assumes "0 < d" "0 < s"
  shows "\<exists>buf. generateEMGPattern rnd p d s = Inr buf \<and> int (length buf) = \<lfloor>d * s\<rfloor> \<and>
           (d * s \<in> \<int> \<longrightarrow> real (length buf) = d * s)"
proof -
  have "0 \<le> d * s" using assms by simp
  from generateEMGPattern_returns[OF this, of rnd p] obtain buf where
    b: "generateEMGPattern rnd p d s = Inr buf" "int (length buf) = \<lfloor>d * s\<rfloor>"
    by blast
  have "real (length buf) = d * s" if "d * s \<in> \<int>"
  proof -
    from that obtain z :: int where z: "d * s = of_int z" by (rule Ints_cases)
    have "real (length buf) = real_of_int (int (length buf))" by simp
    also have "\<dots> = real_of_int \<lfloor>d * s\<rfloor>" by (simp only: b(2))
    also have "\<dots> = d * s" unfolding z by simp
    finally show ?thesis .
  qed
  with b show ?thesis by blast
qed

theorem generateEMGPattern_buffer_length_witness:
  "(0::real) < 500 \<and> (0::real) < 10 \<and> (500 * 10 :: real) \<in> \<int> \<and>
   (\<exists>buf. generateEMGPattern (constant_draws 0) ''myotonic'' 500 10 = Inr buf \<and>
      length buf = 5000 \<and> real (length buf) = 500 * 10)"
proof -
  have z: "(500 * 10 :: real) \<in> \<int>" by simp
  from generateEMGPattern_buffer_length[of 500 10 "constant_draws 0" "''myotonic''"]
  obtain buf where "generateEMGPattern (constant_draws 0) ''myotonic'' 500 10 = Inr buf"
    and "int (length buf) = \<lfloor>500 * 10 :: real\<rfloor>"
    and "(500 * 10 :: real) \<in> \<int> \<longrightarrow> real (length buf) = 500 * 10"
    by auto
  with z show ?thesis by auto
qed

text \<open>
  The sentence of C5 as it was stated fails where the product is no integer: half a
  millisecond at one sample per millisecond gives the empty buffer, whose length 0 is not
  the product 1/2.
\<close>

theorem generateEMGPattern_length_not_product:
  "generateEMGPattern (constant_draws 0) ''myotonic'' (1 / 2) 1 = Inr [] \<and>
   real (length ([] :: real list)) \<noteq> 1 / 2 * 1"
  by (simp add: generateEMGPattern_def fill_samples.simps)

text \<open>
  Claim C6. The buffer for the complex repetitive discharge over 1000 ms at 10 samples per
  millisecond has 10000 samples, that is 40 periods of 250 samples (25 ms). In each period
  the sample number \<open>m\<close> is the spike waveform at the normalised position \<open>m / 150\<close> while
  it lies in the first 15 ms (\<open>m \<le> 150\<close>), and zero in the remaining 10 ms; the window
  of every period is active, its middle sample being -90.
\<close>

lemma crd_sample:
  assumes "m < 250"
  shows "generateComplexRepetitiveDischarge (real (250 * k + m) / 10) 40 =
           (if m \<le> 150 then crd_spike_spec (real m / 150) else 0)"
proof -
  have e: "real (250 * k + m) / 10 = 1000 / 40 * real k + real m / 10" by simp
  have "real m / 10 < 1000 / 40" using assms by simp
  then have "generateComplexRepetitiveDischarge (1000 / 40 * real k + real m / 10) 40 =
           (if real m / 10 > 15 then 0 else crd_spike_spec (real m / 10 / 15))"
    by (intro crd_in_period) auto
  then show ?thesis unfolding e by auto
qed

theorem crd_buffer_periodic:
  "\<exists>buf. generateEMGPattern rnd ''crd'' 1000 10 = Inr buf \<and> length buf = 10000 \<and>
     (\<forall>k<40. \<forall>m<250. buf ! (250 * k + m) =
        (if m \<le> 150 then crd_spike_spec (real m / 150) else 0)) \<and>
     (\<forall>k<40. buf ! (250 * k + 75) = - 90)"
proof -
  let ?f = "\<lambda>i. generateComplexRepetitiveDischarge (real i / 10) 40"
  have g: "generateEMGPattern rnd ''crd'' 1000 10 = Inr (map ?f [0..<10000])"
    by (simp add: generateEMGPattern_def fill_samples_all)
  have "map ?f [0..<10000] ! (250 * k + m) =
          (if m \<le> 150 then crd_spike_spec (real m / 150) else 0)"
    if "k < 40" "m < 250" for k m
  proof -
    have "250 * k + m < 10000" using that by simp
    then have "map ?f [0..<10000] ! (250 * k + m) = ?f (250 * k + m)"
      by (simp del: of_nat_add of_nat_mult)
    then show ?thesis using crd_sample[OF that(2), of k] by simp
  qed
  note window = this
  have "map ?f [0..<10000] ! (250 * k + 75) = - 90" if "k < 40" for k
    using window[OF that, of 75] by (simp add: crd_spike_spec_def sin_three_halves_pi)
  with window show ?thesis using g by simp
qed

theorem crd_buffer_periodic_witness:
  "\<exists>buf. generateEMGPattern (constant_draws 0) ''crd'' 1000 10 = Inr buf \<and>
     length buf = 10000 \<and> (3::nat) < 40 \<and> (75::nat) < 250 \<and> (200::nat) < 250 \<and>
     buf ! 825 = - 90 \<and> buf ! 950 = 0"
proof -
  from crd_buffer_periodic[of "constant_draws 0"] obtain buf where
    b: "generateEMGPattern (constant_draws 0) ''crd'' 1000 10 = Inr buf" "length buf = 10000"
    and s: "\<forall>k<40. \<forall>m<250. buf ! (250 * k + m) =
        (if m \<le> 150 then crd_spike_spec (real m / 150) else 0)"
    and m: "\<forall>k<40. buf ! (250 * k + 75) = - 90"
    by blast
  from m[rule_format, of 3] have a: "buf ! 825 = - 90" by simp
  from s[rule_format, of 3 200] have c: "buf ! 950 = 0" by simp
  show ?thesis using a b c by simp
qed

text \<open>
  Claim C10, as the code has it. For a pattern type outside the five cases of the
  \<^verbatim>\<open>switch\<close>, the positive sharp wave among them, and a requested length that is not
  negative, the assembler places no event: sample \<open>i\<close> is ten times the distance of draw
  \<open>i\<close> from one half. With draws from 0 up to but excluding 1, every sample is at least -5
  and below 5, so its absolute value is at most 5.
\<close>

theorem generateEMGPattern_default_noise:
  assumes "pType \<notin> handled_patterns" "\<forall>k. 0 \<le> rnd k \<and> rnd k < 1" "0 \<le> d * s"
  shows "\<exists>buf. generateEMGPattern rnd pType d s = Inr buf \<and>
           buf = map (\<lambda>i. (rnd i - 0.5) * 10) [0..<nat \<lfloor>d * s\<rfloor>] \<and>
           (\<forall>v \<in> set buf. - 5 \<le> v \<and> v < 5 \<and> \<bar>v\<bar> \<le> 5)"
proof -
  let ?buf = "map (\<lambda>i. (rnd i - 0.5) * 10) [0..<nat \<lfloor>d * s\<rfloor>]"
  have "0 \<le> \<lfloor>d * s\<rfloor>" using assms(3) by simp
  then have g: "generateEMGPattern rnd pType d s = Inr ?buf"
    using assms(1)
    by (simp add: generateEMGPattern_def Let_def handled_patterns_def fill_samples_all)
  have "- 5 \<le> v \<and> v < 5 \<and> \<bar>v\<bar> \<le> 5" if "v \<in> set ?buf" for v
  proof -
    from that obtain i where v: "v = (rnd i - 0.5) * 10" by auto
    from assms(2) have "0 \<le> rnd i" "rnd i < 1" by simp_all
    then show ?thesis unfolding v by (simp add: abs_le_iff)
  qed
  with g show ?thesis by blast
qed

theorem generateEMGPattern_default_noise_witness:
  "''positiveSharpWave'' \<notin> handled_patterns \<and>
   (\<forall>k. 0 \<le> constant_draws (1 / 4) k \<and> constant_draws (1 / 4) k < 1) \<and>
   (0::real) \<le> 2 * 1 \<and>
   generateEMGPattern (constant_draws (1 / 4)) ''positiveSharpWave'' 2 1 = Inr [- 5 / 2, - 5 / 2]"
proof -
  have a: "''positiveSharpWave'' \<notin> handled_patterns" by (simp add: handled_patterns_def)
  have b: "\<forall>k. 0 \<le> constant_draws (1 / 4) k \<and> constant_draws (1 / 4) k < 1"
    by (simp add: constant_draws_def)
  have c: "(0::real) \<le> 2 * 1" by simp
  have u: "[0..<2] = [0, 1]" by (simp add: upt_conv_Cons)
  from generateEMGPattern_default_noise[OF a b c]
  have "generateEMGPattern (constant_draws (1 / 4)) ''positiveSharpWave'' 2 1 =
          Inr (map (\<lambda>i. (constant_draws (1 / 4) i - 0.5) * 10) [0..<nat \<lfloor>2 * 1 :: real\<rfloor>])"
    by blast
  then have "generateEMGPattern (constant_draws (1 / 4)) ''positiveSharpWave'' 2 1 =
          Inr [- 5 / 2, - 5 / 2]"
    by (simp add: constant_draws_def u)
  with a b c show ?thesis by blast
qed

text \<open>
  The sentence of C10 as it was stated fails at the draw 0, which \<^verbatim>\<open>Math.random()\<close> may
  return: the sample is -5, and its absolute value 5 is not below 5.
\<close>

theorem generateEMGPattern_noise_reaches_five:
  "generateEMGPattern (constant_draws 0) ''positiveSharpWave'' 1 1 = Inr [- 5] \<and>
   \<not> \<bar>- 5 :: real\<bar> < 5"
  by (simp add: generateEMGPattern_def fill_samples.simps constant_draws_def)

section \<open>Properties of continuous playback\<close>

lemma sounds_clearTimeout [simp]: "sounds (clearTimeout i h) = sounds h"
  by (simp add: clearTimeout_def)

lemma sounds_fold_clearTimeout [simp]: "sounds (fold clearTimeout ids h) = sounds h"
  by (induction ids arbitrary: h) simp_all

lemma sounds_schedule [simp]: "sounds (snd (schedule cb d p h)) = sounds h"
  by (simp add: schedule_def setTimeout_def)

lemma sounds_schedule_random [simp]: "sounds (snd (schedule_random b sp p h)) = sounds h"
  by (simp add: schedule_random_def mathRandom_def)

text \<open>
  A closure is idle when its flag \<open>isPlaying\<close> is off or its pattern type has no case in
  \<open>playPattern\<close>. An idle closure stays idle and starts no sound, whatever happens to it.
\<close>

lemma playPattern_idle:
  "\<not> isPlaying p \<or> patternType p \<notin> handled_patterns \<Longrightarrow> playPattern p h = Inr (p, h)"
  by (auto simp: playPattern_def handled_patterns_def)

lemma run_callback_idle:
  assumes "\<not> isPlaying p \<or> patternType p \<notin> handled_patterns"
  shows "(\<not> isPlaying (fst (run_callback cb p h)) \<or>
            patternType (fst (run_callback cb p h)) \<notin> handled_patterns) \<and>
         sounds (snd (run_callback cb p h)) = sounds h"
proof (cases cb)
  case PlayPattern
  then show ?thesis using assms playPattern_idle[OF assms, of h] by (simp add: run_callback_def)
next
  case AutoStop
  then show ?thesis by (simp add: run_callback_def halt_def)
qed

lemma step_idle:
  assumes "\<not> isPlaying (fst s) \<or> patternType (fst s) \<notin> handled_patterns"
  shows "(\<not> isPlaying (fst (step e s)) \<or> patternType (fst (step e s)) \<notin> handled_patterns) \<and>
         sounds (snd (step e s)) = sounds (snd s)"
proof (cases s)
  case (Pair p h)
  with assms have idle: "\<not> isPlaying p \<or> patternType p \<notin> handled_patterns" by simp
  show ?thesis
  proof (cases e)
    case (Fire i)
    show ?thesis
    proof (cases "find (\<lambda>(j, delay, cb). j = i) (timers h)")
      case None
      then show ?thesis using idle Pair Fire by simp
    next
      case (Some t)
      obtain j d cb where t: "t = (j, d, cb)" by (cases t)
      from run_callback_idle[OF idle, of cb "clearTimeout i h"]
      show ?thesis using Pair Fire Some t by simp
    qed
  next
    case (InFlight cb)
    from run_callback_idle[OF idle, of cb h] show ?thesis using Pair InFlight by simp
  next
    case Stop
    then show ?thesis using Pair by (simp add: stop_def halt_def)
  qed
qed

lemma run_idle:
  "\<not> isPlaying (fst s) \<or> patternType (fst s) \<notin> handled_patterns \<Longrightarrow>
     sounds (snd (run evs s)) = sounds (snd s)"
proof (induction evs arbitrary: s)
  case Nil
  then show ?case by (simp add: run_def)
next
  case (Cons e evs)
  from step_idle[OF Cons.prems, of e]
  have a: "\<not> isPlaying (fst (step e s)) \<or> patternType (fst (step e s)) \<notin> handled_patterns"
    and b: "sounds (snd (step e s)) = sounds (snd s)"
    by simp_all
  from Cons.IH[OF a] b show ?case by (simp add: run_def)
qed

lemma stop_idle: "\<not> isPlaying (fst (stop s))" "sounds (snd (stop s)) = sounds (snd s)"
  by (simp_all add: stop_def halt_def)

text \<open>What one call of \<open>playPattern\<close> adds to the log of sounds.\<close>

lemma start_sound_sounds:
  "start_sound ev h = Inr h' \<Longrightarrow> sounds h' = sounds h @ [ev]"
  by (auto simp: start_sound_def getAudioContext_def split: if_splits)

lemma playFibrillation_sounds:
  "playFibrillation v h = Inr h' \<Longrightarrow> sounds h' = sounds h @ [FibrillationSound v]"
  by (auto simp: playFibrillation_def getAudioContext_def split: if_splits)

lemma playComplexRepetitiveDischarge_sounds:
  "playComplexRepetitiveDischarge v h = Inr h' \<Longrightarrow> \<exists>n. sounds h' = sounds h @ [CRDSound v n]"
  by (auto simp: playComplexRepetitiveDischarge_def getAudioContext_def mathRandom_def
      split: if_splits)

lemma playPattern_sounds:
  assumes "playPattern p h = Inr s"
  shows "\<exists>evs. sounds (snd s) = sounds h @ evs \<and>
       length evs = (if isPlaying p \<and> patternType p \<in> handled_patterns then 1 else 0)"
proof (cases "isPlaying p \<and> patternType p \<in> handled_patterns")
  case False
  then have "playPattern p h = Inr (p, h)" by (intro playPattern_idle) auto
  with assms False show ?thesis by auto
next
  case True
  then consider "patternType p = ''normal''" | "patternType p = ''fibrillation''"
    | "patternType p = ''fasciculation''" | "patternType p = ''myotonic''"
    | "patternType p = ''crd''"
    by (auto simp: handled_patterns_def)
  then have "\<exists>ev. sounds (snd s) = sounds h @ [ev]"
  proof cases
    case 1
    with assms True show ?thesis
      by (auto simp: playPattern_def playNormalMUAP_def split: sum.splits
          dest!: start_sound_sounds)
  next
    case 2
    with assms True show ?thesis
      by (auto simp: playPattern_def split: sum.splits dest!: playFibrillation_sounds)
  next
    case 3
    with assms True show ?thesis
      by (auto simp: playPattern_def playFasciculation_def split: sum.splits
          dest!: start_sound_sounds)
  next
    case 4
    with assms True show ?thesis
      by (auto simp: playPattern_def playMyotonicDischarge_def split: sum.splits
          dest!: start_sound_sounds)
  next
    case 5
    with assms True show ?thesis
      by (auto simp: playPattern_def split: sum.splits
          dest!: playComplexRepetitiveDischarge_sounds)
  qed
  then obtain ev where "sounds (snd s) = sounds h @ [ev]" ..
  with True show ?thesis by auto
qed

lemma playContinuousPattern_sounds:
  assumes "playContinuousPattern pType d v h = Inr s"
  shows "\<exists>evs. sounds (snd s) = sounds h @ evs \<and>
       length evs = (if pType \<in> handled_patterns then 1 else 0)"
proof -
  let ?p0 = "\<lparr>patternType = pType, volume = v, isPlaying = True, timeoutIds = []\<rparr>"
  from assms obtain p1 h1 where pp: "playPattern ?p0 h = Inr (p1, h1)"
    and s: "s = (if d > 0 then schedule AutoStop (d * 1000) p1 h1 else (p1, h1))"
    by (auto simp: playContinuousPattern_def split: sum.splits)
  from s have "sounds (snd s) = sounds h1" by simp
  with playPattern_sounds[OF pp] show ?thesis by simp
qed

text \<open>
  Claim C4. Once \<open>stop\<close> has returned, the log of sounds never grows again, whichever
  timers fire, whichever callbacks still run although their timer was cleared, and however
  often \<open>stop\<close> is called again. In particular, for a handle that
  \<open>playContinuousPattern\<close> has just returned, the log after \<open>stop\<close> and any such events
  is the log before the call followed by the one sound of the first \<open>playPattern\<close> (by
  none for a pattern type without a case).
\<close>

theorem stop_ends_audio:
  "sounds (snd (run evs (stop s))) = sounds (snd s) \<and>
   (playContinuousPattern pType d v h = Inr s \<longrightarrow>
      (\<exists>initial. sounds (snd (run evs (stop s))) = sounds h @ initial \<and>
         length initial = (if pType \<in> handled_patterns then 1 else 0)))"
proof -
  have "\<not> isPlaying (fst (stop s)) \<or> patternType (fst (stop s)) \<notin> handled_patterns"
    by (simp add: stop_idle(1))
  from run_idle[OF this, of evs]
  have quiet: "sounds (snd (run evs (stop s))) = sounds (snd s)" by (simp add: stop_idle(2))
  then show ?thesis using playContinuousPattern_sounds[of pType d v h s] by auto
qed

theorem stop_ends_audio_witness:
  "\<exists>s. playContinuousPattern ''myotonic'' 0 0.3 audible_host = Inr s \<and>
     sounds (snd s) = [MyotonicSound 0.3 0.5] \<and>
     sounds (snd (run [Fire 1, InFlight PlayPattern, InFlight AutoStop, Stop, Fire 2] (stop s))) =
       [MyotonicSound 0.3 0.5]"
proof -
  have "\<exists>s. playContinuousPattern ''myotonic'' 0 0.3 audible_host = Inr s \<and>
          sounds (snd s) = [MyotonicSound 0.3 0.5]"
    by (simp add: playContinuousPattern_def playPattern_def playMyotonicDischarge_def
        start_sound_def getAudioContext_def audible_host_def silent_host_def)
  then obtain s where s: "playContinuousPattern ''myotonic'' 0 0.3 audible_host = Inr s"
    "sounds (snd s) = [MyotonicSound 0.3 0.5]"
    by blast
  from stop_ends_audio[of "[Fire 1, InFlight PlayPattern, InFlight AutoStop, Stop, Fire 2]" s
      "''myotonic''" 0 "0.3" audible_host] s
  show ?thesis by auto
qed

text \<open>
  Claim C3, as the code has it. On a host that offers no constructor for an audio context
  and holds no context yet, \<open>playContinuousPattern\<close> with one of the five pattern types of
  \<open>playPattern\<close> ends in the TypeError of the failed construction: it reaches the caller,
  no handle is returned, and the host is left as it was, without a sound and without a
  timer. With any other pattern type the call returns a handle, and neither the call nor
  anything that happens to the handle later starts a sound.
\<close>

theorem playContinuousPattern_without_audio:
  assumes "\<not> audioAvailable h" "\<not> audioContext h"
  shows "(pType \<in> handled_patterns \<longrightarrow>
            playContinuousPattern pType d v h = Inl (TypeError, h)) \<and>
         (pType \<notin> handled_patterns \<longrightarrow>
            (\<exists>s. playContinuousPattern pType d v h = Inr s \<and>
               sounds (snd (run evs s)) = sounds h))"
proof -
  let ?p0 = "\<lparr>patternType = pType, volume = v, isPlaying = True, timeoutIds = []\<rparr>"
  have throws: "playContinuousPattern pType d v h = Inl (TypeError, h)"
    if "pType \<in> handled_patterns"
    using that assms
    by (auto simp: handled_patterns_def playContinuousPattern_def playPattern_def
        playNormalMUAP_def playFasciculation_def playMyotonicDischarge_def playFibrillation_def
        playComplexRepetitiveDischarge_def start_sound_def getAudioContext_def)
  have quiet: "\<exists>s. playContinuousPattern pType d v h = Inr s \<and>
               sounds (snd (run evs s)) = sounds h"
    if u: "pType \<notin> handled_patterns"
  proof -
    let ?s = "if d > 0 then schedule AutoStop (d * 1000) ?p0 h else (?p0, h)"
    have pp: "playPattern ?p0 h = Inr (?p0, h)" using u by (intro playPattern_idle) simp
    then have r: "playContinuousPattern pType d v h = Inr ?s"
      by (simp add: playContinuousPattern_def)
    have "patternType (fst ?s) = pType" by (simp add: schedule_def setTimeout_def)
    with u have "\<not> isPlaying (fst ?s) \<or> patternType (fst ?s) \<notin> handled_patterns" by simp
    from run_idle[OF this, of evs] have "sounds (snd (run evs ?s)) = sounds (snd ?s)" .
    moreover have "sounds (snd ?s) = sounds h" by simp
    ultimately show ?thesis using r by simp
  qed
  from throws quiet show ?thesis by blast
qed

theorem playContinuousPattern_without_audio_witness:
  "\<not> audioAvailable silent_host \<and> \<not> audioContext silent_host \<and>
   ''crd'' \<in> handled_patterns \<and>
   playContinuousPattern ''crd'' 5 0.3 silent_host = Inl (TypeError, silent_host) \<and>
   ''positiveSharpWave'' \<notin> handled_patterns \<and>
   (\<exists>s. playContinuousPattern ''positiveSharpWave'' 5 0.3 silent_host = Inr s \<and>
      sounds (snd (run [Fire 1, InFlight PlayPattern] s)) = [])"
proof -
  have a: "\<not> audioAvailable silent_host" "\<not> audioContext silent_host"
    by (simp_all add: silent_host_def)
  have c: "''crd'' \<in> handled_patterns" "''positiveSharpWave'' \<notin> handled_patterns"
    by (simp_all add: handled_patterns_def)
  have e: "sounds silent_host = []" by (simp add: silent_host_def)
  from playContinuousPattern_without_audio[OF a, of "''crd''" 5 "0.3"] c
  have t: "playContinuousPattern ''crd'' 5 0.3 silent_host = Inl (TypeError, silent_host)"
    by simp
  from playContinuousPattern_without_audio[OF a, of "''positiveSharpWave''" 5 "0.3"
      "[Fire 1, InFlight PlayPattern]"] c
  have q: "\<exists>s. playContinuousPattern ''positiveSharpWave'' 5 0.3 silent_host = Inr s \<and>
      sounds (snd (run [Fire 1, InFlight PlayPattern] s)) = []"
    by (simp add: e)
  from a c t q show ?thesis by simp
qed

text \<open>
  The sentence of C3 as it was stated fails: on the host without an audio context
  constructor the call for the normal pattern returns no handle, it throws.
\<close>

theorem silent_host_start_throws:
  "playContinuousPattern ''normal'' 5 0.3 silent_host = Inl (TypeError, silent_host)"
  by (simp add: playContinuousPattern_def playPattern_def playNormalMUAP_def start_sound_def
      getAudioContext_def silent_host_def)

end
